theory Spec2Isabelle
  imports Main
begin

section \<open>The Configuration Store: \<open>gatsby/config/site-metadata.js\<close>\<close>

text \<open>
  The module exports one object literal. Each nested object literal is a record whose
  fields carry the source's property names; the two \<open>description\<close> properties and the
  two \<open>twitter\<close> properties live in different records and are told apart by the record
  name (\<open>SiteInfo.description\<close>, \<open>AuthorInfo.description\<close>, ...).
  JavaScript strings are modelled as \<^typ>\<open>string\<close>; the one character outside ASCII
  (the emoji U+1F609 in the author's description) is written as its four UTF-8 bytes.
\<close>

record SiteInfo =
  title :: string
  description :: string
  metaTitle :: string
  metaDescription :: string
  url :: string
  repositoryUrl :: string
  githubCommentsRepository :: string
  googleCustomSearchId :: string

record Profiles =
  stackoverflow :: string
  twitter :: string
  linkedin :: string
  github :: string
  facebook :: string

record Nicknames =
  twitter :: string

record AuthorInfo =
  name :: string
  description :: string
  job :: string
  email :: string
  jobTitle :: string
  profiles :: Profiles
  nicknames :: Nicknames

record EmailSubscriptionService =
  endpoint :: string
  hiddenFieldName :: string

record CarbonAdsService =
  scriptSrc :: string
  isEnabled :: bool
  isProductionMode :: bool

record PopularPosts =
  category :: string
  slugs :: "string list"

record Featured =
  popularPostsByCategory :: "PopularPosts list"

record AffiliateOffer =
  tag :: string
  courseTitle :: string
  courseLink :: string
  pitch :: string

record SiteMetadata =
  siteUrl :: string
  siteInfo :: SiteInfo
  authorInfo :: AuthorInfo
  emailSubscriptionService :: EmailSubscriptionService
  carbonAdsService :: CarbonAdsService
  featured :: Featured
  affiliates :: "AffiliateOffer list"

text \<open>Line 1 of the module: \<^verbatim>\<open>const siteUrl = 'https://dmitripavlutin.com'\<close>.\<close>

definition siteUrl_const :: string where
  "siteUrl_const = ''https://dmitripavlutin.com''"

text \<open>
  \<^verbatim>\<open>process.env.NODE_ENV\<close> is either a string or \<^verbatim>\<open>undefined\<close>: the environment
  designation is a \<^typ>\<open>string option\<close>, and \<^verbatim>\<open>===\<close> against a string literal holds
  exactly for \<open>Some\<close> of that literal.
\<close>

definition strictEquals :: "string option \<Rightarrow> string \<Rightarrow> bool" where
  "strictEquals v lit = (case v of None \<Rightarrow> False | Some s \<Rightarrow> s = lit)"

text \<open>
  The exported object (\<^verbatim>\<open>module.exports\<close>), evaluated when the module is loaded under
  the environment designation \<open>NODE_ENV\<close>.
\<close>

definition site_metadata :: "string option \<Rightarrow> SiteMetadata" where
  "site_metadata NODE_ENV =
    \<lparr> siteUrl = siteUrl_const,
      siteInfo =
        \<lparr> title = ''Dmitri Pavlutin'',
          SiteInfo.description = ''I help developers understand Frontend technologies'',
          metaTitle = ''Dmitri Pavlutin Blog'',
          metaDescription =
            ''Dmitri Pavlutin Blog is a place to learn about JavaScript, CSS, React, Vue and more on Frontend development'',
          url = siteUrl_const,
          repositoryUrl = ''https://github.com/panzerdp/dmitripavlutin.com'',
          githubCommentsRepository = ''panzerdp/dmitripavlutin.com-comments'',
          googleCustomSearchId = ''004443697379288327791:1zr8pgnumxn'' \<rparr>,
      authorInfo =
        \<lparr> name = ''Dmitri Pavlutin'',
          AuthorInfo.description =
            ''Tech writer and coach. My daily routine consists of (but not limited to) drinking coffee, coding, writing, coaching, overcoming boredom ''
              @ [CHR 0xF0, CHR 0x9F, CHR 0x98, CHR 0x89] @ ''.'',
          job = '''',
          email = ''dmitripavlutin@gmail.com'',
          jobTitle = ''Software Developer'',
          profiles =
            \<lparr> stackoverflow = ''https://stackoverflow.com/users/1894471/dmitri-pavlutin'',
              Profiles.twitter = ''https://twitter.com/panzerdp'',
              linkedin = ''https://www.linkedin.com/in/dmitri-pavlutin/'',
              github = ''https://github.com/panzerdp'',
              facebook = ''https://www.facebook.com/dmitripavlutin.dev'' \<rparr>,
          nicknames = \<lparr> Nicknames.twitter = ''panzerdp'' \<rparr> \<rparr>,
      emailSubscriptionService =
        \<lparr> endpoint =
            ''https://dmitripavlutin.us13.list-manage.com/subscribe/post?u=7cedcb1f5ab74eb7c907e768e&id=75f44f92b9'',
          hiddenFieldName = ''b_7cedcb1f5ab74eb7c907e768e_75f44f92b9'' \<rparr>,
      carbonAdsService =
        \<lparr> scriptSrc = ''//cdn.carbonads.com/carbon.js?serve=CE7DT2QI&placement=dmitripavlutincom'',
          isEnabled = True,
          isProductionMode =
            (strictEquals NODE_ENV ''production'' \<or> strictEquals NODE_ENV ''prod'') \<rparr>,
      featured =
        \<lparr> popularPostsByCategory =
            [ \<lparr> category = ''JavaScript'',
                slugs =
                  [ ''javascript-closure'',
                    ''gentle-explanation-of-this-in-javascript'',
                    ''differences-between-arrow-and-regular-functions'' ] \<rparr>,
              \<lparr> category = ''React'',
                slugs =
                  [ ''react-useeffect-explanation'',
                    ''react-usecallback'',
                    ''use-react-memo-wisely'' ] \<rparr> ] \<rparr>,
      affiliates =
        [ \<lparr> tag = ''react'',
            courseTitle = ''React Front To Back Course'',
            courseLink = ''https://www.traversymedia.com/a/2147528895/FqXWyazh'',
            pitch = ''This is just an example of pitch'' \<rparr>,
          \<lparr> tag = ''javascript'',
            courseTitle = ''Modern JavaScript From The Beginning 2.0'',
            courseLink = ''https://www.traversymedia.com/a/2147528886/FqXWyazh'',
            pitch = ''This is just an example of pitch'' \<rparr> ] \<rparr>"

text \<open>Each of the eight fields of a \<open>SiteInfo\<close> is a non-empty string.\<close>

definition siteInfoNonEmpty :: "SiteInfo \<Rightarrow> bool" where
  "siteInfoNonEmpty si =
    (title si \<noteq> [] \<and> SiteInfo.description si \<noteq> [] \<and> metaTitle si \<noteq> [] \<and>
     metaDescription si \<noteq> [] \<and> url si \<noteq> [] \<and> repositoryUrl si \<noteq> [] \<and>
     githubCommentsRepository si \<noteq> [] \<and> googleCustomSearchId si \<noteq> [])"

section \<open>The Metadata Projection Accessor: \<open>src/hooks/useAuthorAndSiteInfo.ts\<close>\<close>

text \<open>
  The shape of the query result, read off the GraphQL query text of the hook (the
  generated type \<^verbatim>\<open>AuthorInfoAndPicturesQuery\<close> is not part of the sources). Every
  object the query selects may come back as \<^verbatim>\<open>null\<close>, so each is an \<open>option\<close>;
  the image descriptor \<^verbatim>\<open>gatsbyImageData\<close> is an opaque value of type \<^typ>\<open>'img\<close>.
\<close>

record 'img ImageSharp =
  gatsbyImageData :: 'img

record 'img File =
  childImageSharp :: "'img ImageSharp option"

record SiteSiteMetadata =
  authorInfo :: "AuthorInfo option"
  siteInfo :: "SiteInfo option"
  affiliates :: "AffiliateOffer list option"

record Site =
  siteMetadata :: "SiteSiteMetadata option"

record 'img AuthorInfoAndPicturesQuery =
  site :: "Site option"
  authorProfilePicture :: "'img File option"

text \<open>The object the hook returns.\<close>

record 'img Author =
  info :: "AuthorInfo option"
  profilePicture :: 'img
  profilePictureSrc :: "string option"

record 'img ProjectedMetadata =
  author :: "'img Author"
  site :: "SiteInfo option"
  affiliates :: "AffiliateOffer list option"

text \<open>
  Reading a property of \<^verbatim>\<open>null\<close> throws a \<^verbatim>\<open>TypeError\<close>; reading an identifier that
  no scope binds throws a \<^verbatim>\<open>ReferenceError\<close>.
\<close>

datatype jsError = TypeError | ReferenceError string

text \<open>
  The hook, applied to the value \<open>data\<close> that \<^verbatim>\<open>useStaticQuery\<close> returned. \<open>getSrc\<close> is
  the function imported from \<^verbatim>\<open>gatsby-plugin-image\<close>, a parameter here: it maps an
  image descriptor to a URL string or to \<^verbatim>\<open>undefined\<close>.

  Line 63 dereferences \<^verbatim>\<open>data.authorProfilePicture\<close> and its \<^verbatim>\<open>childImageSharp\<close>;
  lines 66, 70 and 71 dereference \<^verbatim>\<open>data.site\<close> and its \<^verbatim>\<open>siteMetadata\<close>. The three
  selected objects and the descriptor are copied into the result as they are.
\<close>

definition useAuthorAndSiteInfo ::
  "('img \<Rightarrow> string option) \<Rightarrow> 'img AuthorInfoAndPicturesQuery \<Rightarrow> jsError + 'img ProjectedMetadata"
where
  "useAuthorAndSiteInfo getSrc data =
    (case authorProfilePicture data of
      None \<Rightarrow> Inl TypeError
    | Some file \<Rightarrow>
       (case childImageSharp file of
         None \<Rightarrow> Inl TypeError
       | Some sharp \<Rightarrow>
          (let imageData = gatsbyImageData sharp in
           case AuthorInfoAndPicturesQuery.site data of
             None \<Rightarrow> Inl TypeError
           | Some s \<Rightarrow>
              (case siteMetadata s of
                None \<Rightarrow> Inl TypeError
              | Some m \<Rightarrow>
                 Inr \<lparr> author =
                         \<lparr> info = SiteSiteMetadata.authorInfo m,
                           profilePicture = imageData,
                           profilePictureSrc = getSrc imageData \<rparr>,
                       ProjectedMetadata.site = SiteSiteMetadata.siteInfo m,
                       ProjectedMetadata.affiliates = SiteSiteMetadata.affiliates m \<rparr>))))"

text \<open>
  Modelled from the spec: the external data layer, which is not part of the sources.
  It resolves the query of the hook against a Configuration Store and the processed
  profile picture: the three selected groups of the store (the query selects every
  field of each) and the image descriptor, all present.
\<close>

definition resolveQuery :: "SiteMetadata \<Rightarrow> 'img \<Rightarrow> 'img AuthorInfoAndPicturesQuery" where
  "resolveQuery cfg img =
    \<lparr> AuthorInfoAndPicturesQuery.site =
        Some \<lparr> siteMetadata =
          Some \<lparr> SiteSiteMetadata.authorInfo = Some (SiteMetadata.authorInfo cfg),
                 SiteSiteMetadata.siteInfo = Some (SiteMetadata.siteInfo cfg),
                 SiteSiteMetadata.affiliates = Some (SiteMetadata.affiliates cfg) \<rparr> \<rparr>,
      authorProfilePicture =
        Some \<lparr> childImageSharp = Some \<lparr> gatsbyImageData = img \<rparr> \<rparr> \<rparr>"


text \<open>The four objects the hook dereferences are present.\<close>

definition dereferencedObjectsPresent :: "'img AuthorInfoAndPicturesQuery \<Rightarrow> bool" where
  "dereferencedObjectsPresent data =
    (case (AuthorInfoAndPicturesQuery.site data, authorProfilePicture data) of
      (Some s, Some file) \<Rightarrow> siteMetadata s \<noteq> None \<and> childImageSharp file \<noteq> None
    | _ \<Rightarrow> False)"

text \<open>
  The query result in which those four objects are present, with the selected groups
  \<open>m\<close> (each of them possibly \<^verbatim>\<open>null\<close>) and the image descriptor \<open>img\<close>.
\<close>

definition queryResult :: "SiteSiteMetadata \<Rightarrow> 'img \<Rightarrow> 'img AuthorInfoAndPicturesQuery" where
  "queryResult m img =
    \<lparr> AuthorInfoAndPicturesQuery.site = Some \<lparr> siteMetadata = Some m \<rparr>,
      authorProfilePicture =
        Some \<lparr> childImageSharp = Some \<lparr> gatsbyImageData = img \<rparr> \<rparr> \<rparr>"



text \<open>
  The hook as a whole (lines 6 to 73): the call of \<^verbatim>\<open>useStaticQuery\<close>, then lines 63
  to 72 on the value it returned. \<open>useStaticQuery\<close> belongs to the external data layer
  and is a parameter: a read that returns the query result and may change the state
  \<open>w\<close> of the data layer (its cache, its bookkeeping).
\<close>

definition invokeAccessor ::
  "('w \<Rightarrow> 'img AuthorInfoAndPicturesQuery \<times> 'w) \<Rightarrow> ('img \<Rightarrow> string option) \<Rightarrow> 'w \<Rightarrow>
    (jsError + 'img ProjectedMetadata) \<times> 'w"
where
  "invokeAccessor useStaticQuery getSrc w =
    (case useStaticQuery w of (data, w') \<Rightarrow> (useAuthorAndSiteInfo getSrc data, w'))"

section \<open>The presentational components: \<open>src/components\<close>\<close>

text \<open>
  A rendered tree: host elements with their attributes and children, component elements
  with their props, fragments and text. An attribute is a string, or the ref object that
  \<^verbatim>\<open>useRef()\<close> returned. The class names of a style module are a parameter \<open>styles\<close>
  of each component.
\<close>

datatype propValue = Str string | RefObject

datatype jsx =
    Element string "(string \<times> propValue) list" "jsx list"
  | Component string "(string \<times> propValue) list"
  | Fragment "jsx list"
  | Text string

text \<open>\<^verbatim>\<open>CarbonAd\<close>: \<^verbatim>\<open>null\<close> is \<open>None\<close>.\<close>

definition CarbonAd :: "(string \<Rightarrow> string) \<Rightarrow> CarbonAdsService \<Rightarrow> jsx option" where
  "CarbonAd styles svc =
    (if \<not> isEnabled svc then None
     else Some (Fragment
       [ Element ''div'' [(''ref'', RefObject), (''className'', Str (styles ''carbonAd''))] [],
         (if isProductionMode svc
          then Component ''CarbonBannerLive''
                 [(''ref'', RefObject), (''scriptSrc'', Str (scriptSrc svc))]
          else Component ''CarbonBannerDemo'' [(''ref'', RefObject)]) ]))"

text \<open>
  An identifier is looked up along the scope chain, innermost scope first; each scope
  is given by the names it binds. When no scope binds the identifier, the read throws a
  \<^verbatim>\<open>ReferenceError\<close>.
\<close>

datatype scopeKind = FunctionScope | ModuleScope | GlobalObject

fun resolveIdentifier :: "(scopeKind \<times> string list) list \<Rightarrow> string \<Rightarrow> jsError + scopeKind" where
  "resolveIdentifier [] x = Inl (ReferenceError x)"
| "resolveIdentifier ((kind, names) # outer) x =
    (if x \<in> set names then Inr kind else resolveIdentifier outer x)"

text \<open>
  The substitution \<^verbatim>\<open>${x.k}\<close> of a template literal. What reading the property \<open>k\<close>
  of a bound identifier yields, and the string it converts to, belong to the
  JavaScript runtime: \<open>readBound\<close> is a parameter.
\<close>

definition readMember ::
  "(scopeKind \<times> string list) list \<Rightarrow> (scopeKind \<Rightarrow> string \<Rightarrow> string \<Rightarrow> jsError + string) \<Rightarrow>
    string \<Rightarrow> string \<Rightarrow> jsError + string"
where
  "readMember scopes readBound x k =
    (case resolveIdentifier scopes x of
      Inl e \<Rightarrow> Inl e
    | Inr kind \<Rightarrow> readBound kind x k)"

text \<open>
  The bindings of the module \<^verbatim>\<open>components/Affiliates/index.tsx\<close>: its two imports and
  the function declaration; and of the function body: the one destructured constant
  \<^verbatim>\<open>affiliates\<close>.
\<close>

definition moduleScope :: "string list" where
  "moduleScope = [''useAuthorAndSiteInfo'', ''styles'', ''Affiliates'']"

definition functionScope :: "string list" where
  "functionScope = [''affiliates'']"

text \<open>The tree the component returns once \<^verbatim>\<open>info.email\<close> and \<^verbatim>\<open>info.name\<close> are read.\<close>

definition contactAuthor :: "(string \<Rightarrow> string) \<Rightarrow> string \<Rightarrow> string \<Rightarrow> jsx" where
  "contactAuthor styles infoEmail infoName =
    Element ''div'' [(''className'', Str (styles ''contactAuthor''))]
      [ Element ''h3'' [] [Text ''Your JavaScript Coach''],
        Element ''div'' [(''className'', Str (styles ''description''))]
          [ Element ''p'' []
              [ Text ''I know how cumbersome are closures, scopes, prototypes, inheritance, async functions, '',
                Element ''i'' [] [Text ''this''],
                Text '' in JavaScript.'' ],
            Element ''p'' []
              [ Text ''I'm excited to start my coaching program to help you advance your JavaScript knowledge.'' ],
            Element ''p'' [] [Text ''You can have direct access to me through:''],
            Element ''ul'' []
              [ Element ''li'' [] [Text ''1 hour, one-to-one, video or chat coaching sessions''],
                Element ''li'' []
                  [ Text ''JavaScript, TypeScript, React, Next teaching, workshops, or interview preparation (you choose!)'' ],
                Element ''li'' [] [Text ''Conversational and friendly format''] ] ],
        Element ''div'' [(''className'', Str (styles ''links''))]
          [ Element ''a''
              [ (''className'', Str (styles ''icon'')),
                (''href'', Str (''mailto:'' @ infoEmail)),
                (''title'', Str (''Write a message to '' @ infoName)) ]
              [ Element ''img'' [(''alt'', Str ''Email address''), (''src'', Str ''/icons/email.svg'')] [] ],
            Element ''a''
              [ (''className'', Str (styles ''text'')),
                (''href'', Str (''mailto:'' @ infoEmail @ ''?subject=Book a JavaScript coaching session'')),
                (''title'', Str (''Write a message to '' @ infoName)) ]
              [ Text ''Book a Coaching Session'' ] ] ]"

text \<open>
  \<^verbatim>\<open>Affiliates\<close>: the hook is called first; the body is then evaluated in the scope chain
  of the function, the module and the global object, whose property names
  \<open>globalNames\<close> are a parameter. The first identifier the body reads that is not an
  import is \<^verbatim>\<open>info\<close>.
\<close>

definition Affiliates ::
  "(string \<Rightarrow> string) \<Rightarrow> string list \<Rightarrow> (scopeKind \<Rightarrow> string \<Rightarrow> string \<Rightarrow> jsError + string) \<Rightarrow>
    ('img \<Rightarrow> string option) \<Rightarrow> 'img AuthorInfoAndPicturesQuery \<Rightarrow> jsError + jsx"
where
  "Affiliates styles globalNames readBound getSrc data =
    (case useAuthorAndSiteInfo getSrc data of
      Inl e \<Rightarrow> Inl e
    | Inr result \<Rightarrow>
       (let scopes =
          [(FunctionScope, functionScope), (ModuleScope, moduleScope),
           (GlobalObject, globalNames)] in
        case readMember scopes readBound ''info'' ''email'' of
          Inl e \<Rightarrow> Inl e
        | Inr infoEmail \<Rightarrow>
           (case readMember scopes readBound ''info'' ''name'' of
             Inl e \<Rightarrow> Inl e
           | Inr infoName \<Rightarrow> Inr (contactAuthor styles infoEmail infoName))))"

section \<open>Properties of the Configuration Store\<close>

lemma strictEquals_iff: "strictEquals v lit \<longleftrightarrow> v = Some lit"
  by (cases v) (auto simp: strictEquals_def)

text \<open>
  Claim C3. \<open>carbonAdsService.isProductionMode\<close> is true exactly when the environment
  designation is the string \<open>production\<close> or the string \<open>prod\<close>; it is false for every
  other designation and when the designation is absent.
\<close>

theorem isProductionMode_iff:
  "isProductionMode (carbonAdsService (site_metadata NODE_ENV))
     = (NODE_ENV = Some ''production'' \<or> NODE_ENV = Some ''prod'')"
  by (simp add: site_metadata_def strictEquals_iff)

text \<open>
  Claim C10. Two evaluations of the Configuration Store under two environment
  designations agree on every exported field but \<open>carbonAdsService.isProductionMode\<close>:
  the store under the first designation is the store under the second with that one
  flag replaced.
\<close>

theorem store_differs_only_in_isProductionMode:
  "siteUrl (site_metadata e1) = siteUrl (site_metadata e2) \<and>
   SiteMetadata.siteInfo (site_metadata e1) = SiteMetadata.siteInfo (site_metadata e2) \<and>
   SiteMetadata.authorInfo (site_metadata e1) = SiteMetadata.authorInfo (site_metadata e2) \<and>
   emailSubscriptionService (site_metadata e1) = emailSubscriptionService (site_metadata e2) \<and>
   scriptSrc (carbonAdsService (site_metadata e1)) = scriptSrc (carbonAdsService (site_metadata e2)) \<and>
   isEnabled (carbonAdsService (site_metadata e1)) = isEnabled (carbonAdsService (site_metadata e2)) \<and>
   featured (site_metadata e1) = featured (site_metadata e2) \<and>
   SiteMetadata.affiliates (site_metadata e1) = SiteMetadata.affiliates (site_metadata e2) \<and>
   site_metadata e1 =
     (site_metadata e2)
       \<lparr> carbonAdsService :=
           (carbonAdsService (site_metadata e2))
             \<lparr> isProductionMode := isProductionMode (carbonAdsService (site_metadata e1)) \<rparr> \<rparr>"
  by (simp add: site_metadata_def)

text \<open>The flag itself does vary with the designation.\<close>

lemma isProductionMode_varies: "site_metadata (Some ''production'') \<noteq> site_metadata None"
  by (simp add: site_metadata_def strictEquals_def)

text \<open>
  As the module exports it, under every environment designation, each of the eight
  fields of \<open>siteInfo\<close> is a non-empty string.
\<close>

lemma siteInfoNonEmpty_store: "siteInfoNonEmpty (SiteMetadata.siteInfo (site_metadata e))"
  by (simp add: siteInfoNonEmpty_def site_metadata_def siteUrl_const_def)

section \<open>Properties of the Projection Accessor\<close>

lemma useAuthorAndSiteInfo_resolveQuery:
  "useAuthorAndSiteInfo getSrc (resolveQuery cfg img) =
     Inr \<lparr> author =
             \<lparr> info = Some (SiteMetadata.authorInfo cfg),
               profilePicture = img,
               profilePictureSrc = getSrc img \<rparr>,
           ProjectedMetadata.site = Some (SiteMetadata.siteInfo cfg),
           ProjectedMetadata.affiliates = Some (SiteMetadata.affiliates cfg) \<rparr>"
  by (simp add: useAuthorAndSiteInfo_def resolveQuery_def)

text \<open>
  Claim C1. For every Configuration Store \<open>cfg\<close> resolved by the data layer, the hook
  returns a result whose \<open>site\<close>, \<open>author.info\<close> and \<open>affiliates\<close> are equal to the
  store's \<open>siteInfo\<close>, \<open>authorInfo\<close> and \<open>affiliates\<close>: equality of records and lists
  is equality of every scalar in them.
\<close>

theorem useAuthorAndSiteInfo_projects_store:
  "\<exists>r. useAuthorAndSiteInfo getSrc (resolveQuery cfg img) = Inr r \<and>
     ProjectedMetadata.site r = Some (SiteMetadata.siteInfo cfg) \<and>
     info (author r) = Some (SiteMetadata.authorInfo cfg) \<and>
     ProjectedMetadata.affiliates r = Some (SiteMetadata.affiliates cfg)"
  by (simp add: useAuthorAndSiteInfo_resolveQuery)


lemma useAuthorAndSiteInfo_fails_iff:
  "(useAuthorAndSiteInfo getSrc d = Inl TypeError) \<longleftrightarrow> \<not> dereferencedObjectsPresent d"
  by (auto simp: useAuthorAndSiteInfo_def dereferencedObjectsPresent_def Let_def
        split: option.splits)

lemma useAuthorAndSiteInfo_queryResult:
  "useAuthorAndSiteInfo getSrc (queryResult m img) =
     Inr \<lparr> author =
             \<lparr> info = SiteSiteMetadata.authorInfo m,
               profilePicture = img,
               profilePictureSrc = getSrc img \<rparr>,
           ProjectedMetadata.site = SiteSiteMetadata.siteInfo m,
           ProjectedMetadata.affiliates = SiteSiteMetadata.affiliates m \<rparr>"
  by (simp add: useAuthorAndSiteInfo_def queryResult_def)

lemma resolveQuery_queryResult:
  "resolveQuery cfg img =
     queryResult
       \<lparr> SiteSiteMetadata.authorInfo = Some (SiteMetadata.authorInfo cfg),
         SiteSiteMetadata.siteInfo = Some (SiteMetadata.siteInfo cfg),
         SiteSiteMetadata.affiliates = Some (SiteMetadata.affiliates cfg) \<rparr> img"
  by (simp add: resolveQuery_def queryResult_def)







lemma invokeAccessor_fst:
  "fst (invokeAccessor useStaticQuery getSrc w) = useAuthorAndSiteInfo getSrc (fst (useStaticQuery w))"
  by (simp add: invokeAccessor_def split: prod.splits)

lemma invokeAccessor_snd:
  "snd (invokeAccessor useStaticQuery getSrc w) = snd (useStaticQuery w)"
  by (simp add: invokeAccessor_def split: prod.splits)

text \<open>
  Claim C6. Let the data layer serve one fixed resolved result (with the dereferenced
  objects present) on every read. Then an invocation of the hook that follows any
  number \<open>n\<close> of earlier invocations returns the same value, the projection of that
  result; one invocation leaves the data layer in the state one read leaves it in,
  and \<open>n\<close> invocations in the state \<open>n\<close> reads leave it in.
\<close>

theorem invokeAccessor_idempotent:
  assumes "\<forall>w. fst (useStaticQuery w) = queryResult m img"
  shows "fst (invokeAccessor useStaticQuery getSrc
               (((\<lambda>s. snd (invokeAccessor useStaticQuery getSrc s)) ^^ n) w))
           = Inr \<lparr> author =
                     \<lparr> info = SiteSiteMetadata.authorInfo m,
                       profilePicture = img,
                       profilePictureSrc = getSrc img \<rparr>,
                   ProjectedMetadata.site = SiteSiteMetadata.siteInfo m,
                   ProjectedMetadata.affiliates = SiteSiteMetadata.affiliates m \<rparr> \<and>
         snd (invokeAccessor useStaticQuery getSrc w) = snd (useStaticQuery w) \<and>
         ((\<lambda>s. snd (invokeAccessor useStaticQuery getSrc s)) ^^ n) w
           = ((\<lambda>s. snd (useStaticQuery s)) ^^ n) w"
proof -
  have "(\<lambda>s. snd (invokeAccessor useStaticQuery getSrc s)) = (\<lambda>s. snd (useStaticQuery s))"
    by (simp add: invokeAccessor_snd)
  with assms show ?thesis
    by (simp add: invokeAccessor_fst invokeAccessor_snd useAuthorAndSiteInfo_queryResult)
qed

theorem invokeAccessor_idempotent_witness:
  "fst (invokeAccessor
         (\<lambda>w. (queryResult
                  \<lparr> SiteSiteMetadata.authorInfo = None,
                    SiteSiteMetadata.siteInfo = Some (SiteMetadata.siteInfo (site_metadata None)),
                    SiteSiteMetadata.affiliates = Some [] \<rparr> ''louvre.jpg'', Suc w))
         [''louvre.jpg'' \<mapsto> ''/static/louvre.jpg'']
         (((\<lambda>s. snd (invokeAccessor
              (\<lambda>w. (queryResult
                  \<lparr> SiteSiteMetadata.authorInfo = None,
                    SiteSiteMetadata.siteInfo = Some (SiteMetadata.siteInfo (site_metadata None)),
                    SiteSiteMetadata.affiliates = Some [] \<rparr> ''louvre.jpg'', Suc w))
              [''louvre.jpg'' \<mapsto> ''/static/louvre.jpg''] s)) ^^ Suc (Suc 0)) (0::nat)))
     = Inr \<lparr> author =
               \<lparr> info = None,
                 profilePicture = ''louvre.jpg'',
                 profilePictureSrc = Some ''/static/louvre.jpg'' \<rparr>,
             ProjectedMetadata.site = Some (SiteMetadata.siteInfo (site_metadata None)),
             ProjectedMetadata.affiliates = Some [] \<rparr>"
proof -
  let ?m = "\<lparr> SiteSiteMetadata.authorInfo = None,
             SiteSiteMetadata.siteInfo = Some (SiteMetadata.siteInfo (site_metadata None)),
             SiteSiteMetadata.affiliates = Some [] \<rparr>"
  let ?q = "\<lambda>w. (queryResult ?m ''louvre.jpg'', Suc w)"
  have fixed: "\<forall>w. fst (?q w) = queryResult ?m ''louvre.jpg''"
    by simp
  note t = invokeAccessor_idempotent
    [of ?q ?m "''louvre.jpg''" "[''louvre.jpg'' \<mapsto> ''/static/louvre.jpg'']" "Suc (Suc 0)" "0::nat"]
  from conjunct1 [OF t [OF fixed]] show ?thesis
    by (simp only: fun_upd_same SiteSiteMetadata.select_convs)
qed

section \<open>Properties of the components\<close>

text \<open>
  Claim C8. For every \<open>carbonAdsService\<close> value: when \<open>isEnabled\<close> is false the
  component returns \<^verbatim>\<open>null\<close>; when it is true the component returns the container
  followed by the live banner with the configured \<open>scriptSrc\<close> if \<open>isProductionMode\<close>
  is true, and by the demo banner if it is false.
\<close>

theorem CarbonAd_render:
  "(\<not> isEnabled svc \<longrightarrow> CarbonAd styles svc = None) \<and>
   (isEnabled svc \<and> isProductionMode svc \<longrightarrow>
      CarbonAd styles svc = Some (Fragment
        [ Element ''div'' [(''ref'', RefObject), (''className'', Str (styles ''carbonAd''))] [],
          Component ''CarbonBannerLive''
            [(''ref'', RefObject), (''scriptSrc'', Str (scriptSrc svc))] ])) \<and>
   (isEnabled svc \<and> \<not> isProductionMode svc \<longrightarrow>
      CarbonAd styles svc = Some (Fragment
        [ Element ''div'' [(''ref'', RefObject), (''className'', Str (styles ''carbonAd''))] [],
          Component ''CarbonBannerDemo'' [(''ref'', RefObject)] ]))"
  by (simp add: CarbonAd_def)

theorem CarbonAd_render_witness:
  "CarbonAd id (carbonAdsService (site_metadata (Some ''prod''))) = Some (Fragment
        [ Element ''div'' [(''ref'', RefObject), (''className'', Str ''carbonAd'')] [],
          Component ''CarbonBannerLive'' [(''ref'', RefObject),
            (''scriptSrc'',
             Str ''//cdn.carbonads.com/carbon.js?serve=CE7DT2QI&placement=dmitripavlutincom'')] ]) \<and>
   CarbonAd id (carbonAdsService (site_metadata None)) = Some (Fragment
        [ Element ''div'' [(''ref'', RefObject), (''className'', Str ''carbonAd'')] [],
          Component ''CarbonBannerDemo'' [(''ref'', RefObject)] ]) \<and>
   CarbonAd id ((carbonAdsService (site_metadata None))\<lparr>isEnabled := False\<rparr>) = None"
  using CarbonAd_render [of "carbonAdsService (site_metadata (Some ''prod''))" id]
        CarbonAd_render [of "carbonAdsService (site_metadata None)" id]
        CarbonAd_render [of "(carbonAdsService (site_metadata None))\<lparr>isEnabled := False\<rparr>" id]
  by (simp add: site_metadata_def strictEquals_def)

lemma resolveIdentifier_info:
  "''info'' \<notin> set globalNames \<Longrightarrow>
   resolveIdentifier
     [(FunctionScope, functionScope), (ModuleScope, moduleScope), (GlobalObject, globalNames)]
     ''info''
     = Inl (ReferenceError ''info'')"
  by (simp add: functionScope_def moduleScope_def)

lemma readMember_info:
  "''info'' \<notin> set globalNames \<Longrightarrow>
   readMember
     [(FunctionScope, functionScope), (ModuleScope, moduleScope), (GlobalObject, globalNames)]
     readBound ''info'' k
     = Inl (ReferenceError ''info'')"
  by (simp add: readMember_def functionScope_def moduleScope_def)

text \<open>
  Claim C4, as stated, fails: when the query result lacks an object the hook
  dereferences, the render fails with the hook's \<^verbatim>\<open>TypeError\<close>, not with a reference
  error; \<^verbatim>\<open>info\<close> is never read.
\<close>

theorem Affiliates_counterexample:
  "Affiliates id [] (\<lambda>kind x k. Inr k) Map.empty
      \<lparr> AuthorInfoAndPicturesQuery.site = None, authorProfilePicture = None \<rparr>
     = Inl TypeError \<and>
   Affiliates id [] (\<lambda>kind x k. Inr k) Map.empty
      \<lparr> AuthorInfoAndPicturesQuery.site = None, authorProfilePicture = None \<rparr>
     \<noteq> Inl (ReferenceError ''info'')"
  by (simp add: Affiliates_def useAuthorAndSiteInfo_def)

text \<open>
  Claim C4, amended. The function and the module bind \<open>affiliates\<close>,
  \<open>useAuthorAndSiteInfo\<close>, \<open>styles\<close> and \<open>Affiliates\<close>, and no \<open>info\<close>. So, the global
  object having no property \<open>info\<close> either, every render fails before producing
  output: with the reference error for \<open>info\<close> when the hook returns (the objects it
  dereferences are present), and with the hook's \<^verbatim>\<open>TypeError\<close> otherwise.
\<close>

theorem Affiliates_never_renders:
  assumes "''info'' \<notin> set globalNames"
  shows "Affiliates styles globalNames readBound getSrc data =
           (if dereferencedObjectsPresent data then Inl (ReferenceError ''info'')
            else Inl TypeError)"
proof (cases "useAuthorAndSiteInfo getSrc data")
  case (Inl e)
  have "e = TypeError"
    using Inl by (auto simp: useAuthorAndSiteInfo_def Let_def split: option.splits)
  with Inl have "\<not> dereferencedObjectsPresent data"
    by (simp add: useAuthorAndSiteInfo_fails_iff)
  with Inl \<open>e = TypeError\<close> show ?thesis by (simp add: Affiliates_def)
next
  case (Inr r)
  then have "dereferencedObjectsPresent data"
    using useAuthorAndSiteInfo_fails_iff [of getSrc data] by auto
  with Inr assms show ?thesis
    by (simp add: Affiliates_def Let_def readMember_info)
qed

theorem Affiliates_never_renders_witness:
  "Affiliates id [''name'', ''location''] (\<lambda>kind x k. Inr k)
      [''louvre.jpg'' \<mapsto> ''/static/louvre.jpg'']
      (resolveQuery (site_metadata None) ''louvre.jpg'')
     = Inl (ReferenceError ''info'')"
proof -
  have p: "dereferencedObjectsPresent (resolveQuery (site_metadata None) ''louvre.jpg'')"
    by (simp add: dereferencedObjectsPresent_def resolveQuery_def)
  have g: "''info'' \<notin> set [''name'', ''location'']" by simp
  from Affiliates_never_renders
         [where globalNames = "[''name'', ''location'']" and styles = id
            and readBound = "\<lambda>kind x k. Inr k"
            and getSrc = "[''louvre.jpg'' \<mapsto> ''/static/louvre.jpg'']"
            and data = "resolveQuery (site_metadata None) ''louvre.jpg''", OF g] p
  show ?thesis by simp
qed

text \<open>
  Were the global object to bind \<open>info\<close>, the component would render: the failure comes
  from the missing binding alone.
\<close>

lemma Affiliates_with_global_info:
  "Affiliates id [''info''] (\<lambda>kind x k. Inr (x @ ''.'' @ k)) getSrc
      (resolveQuery (site_metadata None) img)
     = Inr (contactAuthor id ''info.email'' ''info.name'')"
  by (simp add: Affiliates_def useAuthorAndSiteInfo_resolveQuery readMember_def
        functionScope_def moduleScope_def)

end
